theory Spec2Isabelle
  imports Main
begin

section \<open>JavaScript values, objects and the object heap\<close>

text \<open>
  The values that connection parameters, settings and stored documents hold. Numbers are
  integers here (ports, versions); no function of the data-source service does arithmetic
  on them. \<open>JObject\<close> carries its own properties in insertion order.
\<close>

datatype jsval =
    JUndefined
  | JNull
  | JBool bool
  | JNum int
  | JStr string
  | JDate int
  | JObjectId nat
  | JArray "jsval list"
  | JObject "(string \<times> jsval) list"

text \<open>JavaScript's ToBoolean: what \<open>if (v)\<close> and \<open>!v\<close> test.\<close>

fun truthy :: "jsval \<Rightarrow> bool" where
  "truthy JUndefined = False"
| "truthy JNull = False"
| "truthy (JBool b) = b"
| "truthy (JNum n) = (n \<noteq> 0)"
| "truthy (JStr s) = (s \<noteq> [])"
| "truthy (JDate t) = True"
| "truthy (JObjectId n) = True"
| "truthy (JArray vs) = True"
| "truthy (JObject kvs) = True"

type_synonym obj = "(string \<times> jsval) list"

text \<open>\<open>o[k]\<close>: the value of an own property, \<open>undefined\<close> when there is none.\<close>

definition obj_get :: "obj \<Rightarrow> string \<Rightarrow> jsval" where
  "obj_get ob k = (case map_of ob k of None \<Rightarrow> JUndefined | Some v \<Rightarrow> v)"

text \<open>\<open>o[k] = v\<close>: an existing property keeps its place, a new one goes last.\<close>

primrec obj_set :: "obj \<Rightarrow> string \<Rightarrow> jsval \<Rightarrow> obj" where
  "obj_set [] k v = [(k, v)]"
| "obj_set (p # ps) k v = (if fst p = k then (k, v) # ps else p # obj_set ps k v)"

definition Object_keys :: "obj \<Rightarrow> string list" where
  "Object_keys ob = map fst ob"

text \<open>\<open>omit(o, ks)\<close> of lodash: a copy of \<open>o\<close> without the properties named in \<open>ks\<close>.\<close>

definition omit :: "obj \<Rightarrow> string list \<Rightarrow> obj" where
  "omit ob ks = filter (\<lambda>p. fst p \<notin> set ks) ob"

text \<open>
  Objects are shared by reference: \<open>mergeParams\<close> writes into the object that
  \<open>integration.params\<close> refers to, \<open>getNonSensitiveParams\<close> writes into a copy. The heap
  is the list of all objects allocated so far; a reference is an index into it. JavaScript
  has no reference to an object that was never allocated: here such a reference reads as
  the empty object and a write through it is lost, and the theorems about parameters
  assume the driver's reference allocated.
\<close>

type_synonym addr = nat
type_synonym heap = "obj list"

definition heap_read :: "heap \<Rightarrow> addr \<Rightarrow> obj" where
  "heap_read h a = (if a < length h then h ! a else [])"

definition heap_alloc :: "heap \<Rightarrow> obj \<Rightarrow> addr \<times> heap" where
  "heap_alloc h ob = (length h, h @ [ob])"

definition heap_write :: "heap \<Rightarrow> addr \<Rightarrow> string \<Rightarrow> jsval \<Rightarrow> heap" where
  "heap_write h a k v = h[a := obj_set (heap_read h a) k v]"

section \<open>Errors, schema trees, data sources and drivers\<close>

text \<open>A thrown \<open>Error\<close>; \<open>e.message\<close> is its message.\<close>

datatype error = Error string

fun message :: "error \<Rightarrow> string" where
  "message (Error m) = m"

text \<open>
  \<open>DataSourceType\<close>: the twelve backends of the factory's switch. \<open>OtherType\<close> stands for a
  stored type string that none of the cases matches, which the factory's sanity check is
  there for.
\<close>

datatype DataSourceType =
    Athena | Redshift | GoogleAnalytics | Snowflake | Postgres | Mysql | Mssql
  | BigQuery | ClickHouse | Mixpanel | Presto | Databricks | OtherType string

fun type_string :: "DataSourceType \<Rightarrow> string" where
  "type_string Athena = ''athena''"
| "type_string Redshift = ''redshift''"
| "type_string GoogleAnalytics = ''google_analytics''"
| "type_string Snowflake = ''snowflake''"
| "type_string Postgres = ''postgres''"
| "type_string Mysql = ''mysql''"
| "type_string Mssql = ''mssql''"
| "type_string BigQuery = ''bigquery''"
| "type_string ClickHouse = ''clickhouse''"
| "type_string Mixpanel = ''mixpanel''"
| "type_string Presto = ''presto''"
| "type_string Databricks = ''databricks''"
| "type_string (OtherType s) = s"

text \<open>
  Modelled from the spec: the declarations of \<open>InformationSchema\<close>, \<open>Schema\<close> and \<open>Table\<close>
  (types/Integration) are not among the sources. The tree is an ordered sequence of
  databases, each an ordered sequence of schemas, each an ordered sequence of tables;
  a table has its column list and the back-reference \<open>columns_id\<close>, \<open>undefined\<close> until the
  synchronization sets it. A column is an object (id, column_name, data_type, path in
  the Mongoose schema).
\<close>

record Table =
  table_name :: string
  columns :: "jsval list"
  columns_id :: jsval

record Schema =
  schema_name :: string
  tables :: "Table list"

record InformationSchema =
  database_name :: string
  schemas :: "Schema list"

text \<open>
  \<open>DataSourceInterface\<close>: the stored record. \<open>ds_params\<close> is the encrypted parameter
  string; \<open>ds_settings\<close> is \<open>None\<close> for a record without settings (the factory's
  \<open>settings ?? {}\<close>).
\<close>

record DataSourceInterface =
  ds_id :: string
  ds_organization :: string
  ds_type :: DataSourceType
  ds_params :: string
  ds_settings :: "obj option"

text \<open>
  \<open>SourceIntegrationInterface\<close>: a driver. \<open>params\<close> is a reference to the decrypted
  parameter object; \<open>getSensitiveParamKeys()\<close> is the list it returns. A capability the
  driver lacks is \<open>None\<close>. A capability that is there acts on the backend it talks to,
  whose state is of type \<open>'w\<close>, and either throws an \<open>Error\<close> or returns: no function of
  the service can change \<open>'w\<close> but by calling a capability, and no capability writes to
  the document store. What a capability reads of its driver's own fields is part of the
  function.
\<close>

record 'w integration =
  params :: addr
  settings :: "obj option"
  organization :: string
  datasource :: string
  getSensitiveParamKeys :: "string list"
  testConnection :: "'w \<Rightarrow> (error + unit) \<times> 'w"
  getTestQuery :: "(string \<Rightarrow> 'w \<Rightarrow> (error + string) \<times> 'w) option"
  runTestQuery :: "(string \<Rightarrow> 'w \<Rightarrow> (error + obj list \<times> int) \<times> 'w) option"
  getInformationSchema :: "(jsval \<Rightarrow> 'w \<Rightarrow> (error + jsval) \<times> 'w) option"
  formatInformationSchema ::
    "(jsval \<Rightarrow> DataSourceType \<Rightarrow> 'w \<Rightarrow> (error + InformationSchema list) \<times> 'w) option"

section \<open>Parameter redaction and merge\<close>

text \<open>
  \<open>getNonSensitiveParams\<close>: \<open>ret\<close> is a new object holding the properties of
  \<open>integration.params\<close>; the loop blanks, in \<open>ret\<close>, each sensitive key whose value is truthy.
\<close>

definition blank_step :: "addr \<Rightarrow> string \<Rightarrow> heap \<Rightarrow> heap" where
  "blank_step ret k h =
     (if truthy (obj_get (heap_read h ret) k) then heap_write h ret k (JStr []) else h)"

definition getNonSensitiveParams :: "'w integration \<Rightarrow> heap \<Rightarrow> addr \<times> heap" where
  "getNonSensitiveParams integration h =
     (case heap_alloc h (heap_read h (params integration)) of
        (ret, h1) \<Rightarrow> (ret, fold (blank_step ret) (getSensitiveParamKeys integration) h1))"

text \<open>
  \<open>mergeParams\<close>: \<open>newParams\<close> is a reference too (it may be the very object
  \<open>integration.params\<close> refers to). \<open>Object.keys\<close> is taken once, before the loop; each
  round reads \<open>newParams[k]\<close> from the heap as it then is.
\<close>

definition mergeParams_step :: "'w integration \<Rightarrow> addr \<Rightarrow> string \<Rightarrow> heap \<Rightarrow> heap" where
  "mergeParams_step integration newParams k h =
     (if k \<in> set (getSensitiveParamKeys integration)
         \<and> \<not> truthy (obj_get (heap_read h newParams) k)
      then h
      else heap_write h (params integration) k (obj_get (heap_read h newParams) k))"

definition mergeParams :: "'w integration \<Rightarrow> addr \<Rightarrow> heap \<Rightarrow> heap" where
  "mergeParams integration newParams h =
     fold (mergeParams_step integration newParams) (Object_keys (heap_read h newParams)) h"

section \<open>The credential codec\<close>




section \<open>The integration factory\<close>

text \<open>
  The driver classes (integrations/*) are not among the sources: \<open>new C(params, settings)\<close>
  is the parameter \<open>new\<close>, applied to the class's type. A constructor decrypts the
  parameter string into a new object, so it may throw and it may allocate; it does no
  input or output.
\<close>

type_synonym 'w classes =
  "DataSourceType \<Rightarrow> string \<Rightarrow> obj option \<Rightarrow> heap \<Rightarrow> (error + 'w integration) \<times> heap"

definition construct ::
  "'w classes \<Rightarrow> DataSourceType \<Rightarrow> string \<Rightarrow> obj option \<Rightarrow> heap
     \<Rightarrow> (error + 'w integration option) \<times> heap" where
  "construct new c ps st h =
     (case new c ps st h of
        (Inl e, h') \<Rightarrow> (Inl e, h')
      | (Inr ob, h') \<Rightarrow> (Inr (Some ob), h'))"

definition getIntegrationObj ::
  "'w classes \<Rightarrow> DataSourceType \<Rightarrow> string \<Rightarrow> obj option \<Rightarrow> heap
     \<Rightarrow> (error + 'w integration option) \<times> heap" where
  "getIntegrationObj new type ps st h =
     (case type of
        Athena \<Rightarrow> construct new Athena ps st h
      | Redshift \<Rightarrow> construct new Redshift ps st h
      | GoogleAnalytics \<Rightarrow> construct new GoogleAnalytics ps st h
      | Snowflake \<Rightarrow> construct new Snowflake ps st h
      | Postgres \<Rightarrow> construct new Postgres ps st h
      | Mysql \<Rightarrow> construct new Mysql ps st h
      | Mssql \<Rightarrow> construct new Mssql ps st h
      | BigQuery \<Rightarrow> construct new BigQuery ps st h
      | ClickHouse \<Rightarrow> construct new ClickHouse ps st h
      | Mixpanel \<Rightarrow>
          construct new Mixpanel ps (Some (case st of None \<Rightarrow> [] | Some s \<Rightarrow> s)) h
      | Presto \<Rightarrow> construct new Presto ps st h
      | Databricks \<Rightarrow> construct new Databricks ps st h
      | OtherType s \<Rightarrow> (Inr None, h))"

definition getSourceIntegrationObject ::
  "'w classes \<Rightarrow> DataSourceInterface \<Rightarrow> heap \<Rightarrow> (error + 'w integration) \<times> heap" where
  "getSourceIntegrationObject new ds h =
     (case getIntegrationObj new (ds_type ds) (ds_params ds) (ds_settings ds) h of
        (Inl e, h') \<Rightarrow> (Inl e, h')
      | (Inr None, h') \<Rightarrow>
          (Inl (Error (''Unknown data source type: '' @ type_string (ds_type ds))), h')
      | (Inr (Some ob), h') \<Rightarrow>
          (Inr (ob\<lparr>organization := ds_organization ds, datasource := ds_id ds\<rparr>), h'))"

section \<open>The document store and the running system\<close>

text \<open>
  Modelled from the spec: \<open>InformationSchemaModel\<close> and \<open>DataSourceModel\<close> are not among
  the sources. An InformationSchema document holds its id, the owning organization and
  the tree.
\<close>

record InformationSchemaDocument =
  is_id :: string
  is_organization :: string
  is_databases :: "InformationSchema list"

text \<open>The three collections the service writes to.\<close>

record docstore =
  InformationSchemaColumnsModel :: "obj list"
  InformationSchemaModel :: "InformationSchemaDocument list"
  DataSourceModel :: "DataSourceInterface list"

text \<open>
  The state a call runs in: the object heap, the backends the drivers talk to, the
  document store, and what the process cannot predict: \<open>uniq_at n\<close> and \<open>time_at n\<close> are
  what \<open>uniqid\<close> appends and what the clock shows at the \<open>n\<close>-th such read, \<open>ticks\<close> counts
  the reads so far.
\<close>

record 'w world =
  heap :: heap
  net :: 'w
  db :: docstore
  ticks :: nat
  uniq_at :: "nat \<Rightarrow> string"
  time_at :: "nat \<Rightarrow> int"

definition uniqid :: "string \<Rightarrow> 'w world \<Rightarrow> string \<times> 'w world" where
  "uniqid prefix w = (prefix @ uniq_at w (ticks w), w\<lparr>ticks := Suc (ticks w)\<rparr>)"

definition new_Date :: "'w world \<Rightarrow> jsval \<times> 'w world" where
  "new_Date w = (JDate (time_at w (ticks w)), w\<lparr>ticks := Suc (ticks w)\<rparr>)"

text \<open>
  \<open>InformationSchemaColumnsModel.create(fields)\<close> of Mongoose: the document is stored with
  the fields given and Mongo's own \<open>_id\<close> and \<open>__v\<close>, and returned. A store that is down is
  not modelled: every write succeeds.
\<close>

definition InformationSchemaColumnsModel_create :: "obj \<Rightarrow> 'w world \<Rightarrow> obj \<times> 'w world" where
  "InformationSchemaColumnsModel_create given w =
     (let doc = (''_id'', JObjectId (ticks w)) # given @ [(''__v'', JNum 0)]
      in (doc, w\<lparr>db := (db w)\<lparr>InformationSchemaColumnsModel :=
                                  InformationSchemaColumnsModel (db w) @ [doc]\<rparr>,
                 ticks := Suc (ticks w)\<rparr>))"

definition toInterface :: "obj \<Rightarrow> obj" where
  "toInterface doc = omit doc [''__v'', ''_id'']"

definition createInformationSchemaColumns ::
  "jsval list \<Rightarrow> string \<Rightarrow> 'w world \<Rightarrow> obj \<times> 'w world" where
  "createInformationSchemaColumns cols org w =
     (case uniqid ''cols_'' w of (new_id, w1) \<Rightarrow>
      case new_Date w1 of (dateCreated, w2) \<Rightarrow>
      case new_Date w2 of (dateUpdated, w3) \<Rightarrow>
      case InformationSchemaColumnsModel_create
             [(''id'', JStr new_id), (''organization'', JStr org), (''columns'', JArray cols),
              (''dateCreated'', dateCreated), (''dateUpdated'', dateUpdated)] w3
      of (result, w4) \<Rightarrow> (toInterface result, w4))"

text \<open>
  Modelled from the spec: \<open>createInformationSchema(tree, organization) -> id\<close>
  (models/InformationSchemaModel) is not among the sources. It creates one InformationSchema
  document from the tree, with a system-generated id, and returns that id.
\<close>

definition createInformationSchema ::
  "InformationSchema list \<Rightarrow> string \<Rightarrow> 'w world \<Rightarrow> string \<times> 'w world" where
  "createInformationSchema tree org w =
     (case uniqid [] w of (new_id, w1) \<Rightarrow>
        (new_id,
         w1\<lparr>db := (db w1)\<lparr>InformationSchemaModel :=
                            InformationSchemaModel (db w1)
                              @ [\<lparr>is_id = new_id, is_organization = org, is_databases = tree\<rparr>]\<rparr>\<rparr>))"

text \<open>
  Modelled from the spec: \<open>updateDataSource(id, organization, partialUpdate) -> void\<close>
  (models/DataSourceModel) is not among the sources. The only field the service ever
  passes is \<open>settings\<close>; the record of that id and organization gets it, the other
  records and the other fields stay.
\<close>

fun update_one ::
  "string \<Rightarrow> string \<Rightarrow> obj \<Rightarrow> DataSourceInterface list \<Rightarrow> DataSourceInterface list" where
  "update_one i org st [] = []"
| "update_one i org st (r # rs) =
     (if ds_id r = i \<and> ds_organization r = org
      then r\<lparr>ds_settings := Some st\<rparr> # rs
      else r # update_one i org st rs)"

definition updateDataSource :: "string \<Rightarrow> string \<Rightarrow> obj \<Rightarrow> 'w world \<Rightarrow> 'w world" where
  "updateDataSource i org st w =
     w\<lparr>db := (db w)\<lparr>DataSourceModel := update_one i org st (DataSourceModel (db w))\<rparr>\<rparr>"

section \<open>Schema discovery, test queries and the synchronization\<close>

text \<open>
  The result of \<open>generateInformationSchema\<close>: \<open>{informationSchema}\<close> or \<open>{error}\<close>, the
  other field \<open>undefined\<close>.
\<close>

record gen_result =
  informationSchema :: "InformationSchema list option"
  gen_error :: "string option"

definition generateInformationSchema ::
  "'w classes \<Rightarrow> DataSourceInterface \<Rightarrow> 'w world \<Rightarrow> (error + gen_result) \<times> 'w world" where
  "generateInformationSchema new ds w =
     (case getSourceIntegrationObject new ds (heap w) of
        (Inl e, h1) \<Rightarrow> (Inl e, w\<lparr>heap := h1\<rparr>)
      | (Inr integration, h1) \<Rightarrow>
          (case (getInformationSchema integration, formatInformationSchema integration) of
             (Some gis, Some fis) \<Rightarrow>
               (case gis (obj_get (heap_read h1 (params integration)) ''projectId'') (net w) of
                  (Inl e, n1) \<Rightarrow>
                    (Inr \<lparr>informationSchema = None, gen_error = Some (message e)\<rparr>,
                     w\<lparr>heap := h1, net := n1\<rparr>)
                | (Inr rawInformationSchema, n1) \<Rightarrow>
                    (case fis rawInformationSchema (ds_type ds) n1 of
                       (Inl e, n2) \<Rightarrow>
                         (Inr \<lparr>informationSchema = None, gen_error = Some (message e)\<rparr>,
                          w\<lparr>heap := h1, net := n2\<rparr>)
                     | (Inr tree, n2) \<Rightarrow>
                         (Inr \<lparr>informationSchema = Some tree, gen_error = None\<rparr>,
                          w\<lparr>heap := h1, net := n2\<rparr>)))
           | _ \<Rightarrow> (Inr \<lparr>informationSchema = Some [], gen_error = None\<rparr>, w\<lparr>heap := h1\<rparr>)))"

definition testDataSourceConnection ::
  "'w classes \<Rightarrow> DataSourceInterface \<Rightarrow> 'w world \<Rightarrow> (error + unit) \<times> 'w world" where
  "testDataSourceConnection new ds w =
     (case getSourceIntegrationObject new ds (heap w) of
        (Inl e, h1) \<Rightarrow> (Inl e, w\<lparr>heap := h1\<rparr>)
      | (Inr integration, h1) \<Rightarrow>
          (case testConnection integration (net w) of
             (r, n1) \<Rightarrow> (r, w\<lparr>heap := h1, net := n1\<rparr>)))"

text \<open>The result of \<open>testQuery\<close>: each field may be missing.\<close>

record test_result =
  results :: "obj list option"
  duration :: "int option"
  tq_error :: "string option"
  sql :: "string option"

definition testQuery ::
  "'w classes \<Rightarrow> DataSourceInterface \<Rightarrow> string \<Rightarrow> 'w world \<Rightarrow> (error + test_result) \<times> 'w world" where
  "testQuery new ds query w =
     (case getSourceIntegrationObject new ds (heap w) of
        (Inl e, h1) \<Rightarrow> (Inl e, w\<lparr>heap := h1\<rparr>)
      | (Inr integration, h1) \<Rightarrow>
          (case (getTestQuery integration, runTestQuery integration) of
             (Some gtq, Some rtq) \<Rightarrow>
               (case gtq query (net w) of
                  (Inl e, n1) \<Rightarrow> (Inl e, w\<lparr>heap := h1, net := n1\<rparr>)
                | (Inr bounded, n1) \<Rightarrow>
                    (case rtq bounded n1 of
                       (Inl e, n2) \<Rightarrow>
                         (Inr \<lparr>results = None, duration = None,
                               tq_error = Some (message e), sql = Some bounded\<rparr>,
                          w\<lparr>heap := h1, net := n2\<rparr>)
                     | (Inr (rows, ms), n2) \<Rightarrow>
                         (Inr \<lparr>results = Some rows, duration = Some ms,
                               tq_error = None, sql = Some bounded\<rparr>,
                          w\<lparr>heap := h1, net := n2\<rparr>)))
           | _ \<Rightarrow> (Inl (Error ''Unable to test query.''), w\<lparr>heap := h1\<rparr>)))"

text \<open>
  The three nested loops of \<open>createInitialInformationSchema\<close>: one columns document per
  table, in tree order, its id written onto the table.
\<close>

fun each_table :: "Table list \<Rightarrow> string \<Rightarrow> 'w world \<Rightarrow> Table list \<times> 'w world" where
  "each_table [] org w = ([], w)"
| "each_table (t # ts) org w =
     (case createInformationSchemaColumns (columns t) org w of (column, w1) \<Rightarrow>
      case each_table ts org w1 of (ts', w2) \<Rightarrow>
        (t\<lparr>columns_id := obj_get column ''id''\<rparr> # ts', w2))"

fun each_schema :: "Schema list \<Rightarrow> string \<Rightarrow> 'w world \<Rightarrow> Schema list \<times> 'w world" where
  "each_schema [] org w = ([], w)"
| "each_schema (s # ss) org w =
     (case each_table (tables s) org w of (ts', w1) \<Rightarrow>
      case each_schema ss org w1 of (ss', w2) \<Rightarrow>
        (s\<lparr>tables := ts'\<rparr> # ss', w2))"

fun each_database ::
  "InformationSchema list \<Rightarrow> string \<Rightarrow> 'w world \<Rightarrow> InformationSchema list \<times> 'w world" where
  "each_database [] org w = ([], w)"
| "each_database (d # ds) org w =
     (case each_schema (schemas d) org w of (ss', w1) \<Rightarrow>
      case each_database ds org w1 of (ds', w2) \<Rightarrow>
        (d\<lparr>schemas := ss'\<rparr> # ds', w2))"

definition createInitialInformationSchema ::
  "'w classes \<Rightarrow> DataSourceInterface \<Rightarrow> string \<Rightarrow> 'w world \<Rightarrow> (error + unit) \<times> 'w world" where
  "createInitialInformationSchema new ds org w =
     (case generateInformationSchema new ds w of
        (Inl e, w1) \<Rightarrow> (Inl e, w1)
      | (Inr r, w1) \<Rightarrow>
          (case informationSchema r of
             None \<Rightarrow> (Inr (), w1)
           | Some tree \<Rightarrow>
               (case each_database tree org w1 of (tree', w2) \<Rightarrow>
                case createInformationSchema tree' org w2 of (informationSchemaId, w3) \<Rightarrow>
                  if truthy (JStr informationSchemaId)
                  then (Inr (),
                        updateDataSource (ds_id ds) org
                          (obj_set (case ds_settings ds of None \<Rightarrow> [] | Some s \<Rightarrow> s)
                             ''informationSchemaId'' (JStr informationSchemaId))
                          w3)
                  else (Inr (), w3))))"

section \<open>Concrete drivers and states\<close>

text \<open>
  Three drivers over a backend whose whole state is the number of calls it has answered.
  \<open>plain_driver\<close> is in the manner of the Mixpanel integration: one sensitive parameter,
  no test-query capability, no schema capability.
\<close>

definition plain_driver :: "nat integration" where
  "plain_driver =
     \<lparr>params = 0, settings = None, organization = [], datasource = [],
      getSensitiveParamKeys = [''pass''],
      testConnection = (\<lambda>n. (Inr (), Suc n)),
      getTestQuery = None, runTestQuery = None,
      getInformationSchema = None, formatInformationSchema = None\<rparr>"

definition stored_params :: obj where
  "stored_params = [(''user'', JStr ''a''), (''pass'', JStr ''secret'')]"

definition three_columns :: "jsval list" where
  "three_columns =
     [JObject [(''column_name'', JStr ''id''), (''data_type'', JStr ''integer'')],
      JObject [(''column_name'', JStr ''email''), (''data_type'', JStr ''text'')],
      JObject [(''column_name'', JStr ''created''), (''data_type'', JStr ''date'')]]"

definition one_table :: "InformationSchema list" where
  "one_table =
     [\<lparr>database_name = ''shop'', schemas =
         [\<lparr>schema_name = ''public'', tables =
             [\<lparr>table_name = ''users'', columns = three_columns, columns_id = JUndefined\<rparr>]\<rparr>]\<rparr>]"

text \<open>
  \<open>sql_driver\<close> has every capability: its test query is refused by the backend, its schema
  is one database, one schema, one table of three columns.
\<close>

definition sql_driver :: "nat integration" where
  "sql_driver =
     \<lparr>params = 0, settings = None, organization = [], datasource = [],
      getSensitiveParamKeys = [''pass''],
      testConnection = (\<lambda>n. (Inr (), Suc n)),
      getTestQuery = Some (\<lambda>q n. (Inr (q @ '' LIMIT 5''), n)),
      runTestQuery = Some (\<lambda>q n. (Inl (Error ''relation does not exist''), Suc n)),
      getInformationSchema = Some (\<lambda>scope n. (Inr (JArray []), Suc n)),
      formatInformationSchema = Some (\<lambda>rawSchema t n. (Inr one_table, n))\<rparr>"

text \<open>
  \<open>failing_driver\<close> builds test queries (and counts that as a call) but cannot run them;
  its backend refuses the schema request.
\<close>

definition failing_driver :: "nat integration" where
  "failing_driver =
     \<lparr>params = 0, settings = None, organization = [], datasource = [],
      getSensitiveParamKeys = [''pass''],
      testConnection = (\<lambda>n. (Inr (), Suc n)),
      getTestQuery = Some (\<lambda>q n. (Inr q, Suc n)),
      runTestQuery = None,
      getInformationSchema = Some (\<lambda>scope n. (Inl (Error ''connection refused''), Suc n)),
      formatInformationSchema = Some (\<lambda>rawSchema t n. (Inr [], n))\<rparr>"

definition demo_classes :: "nat classes" where
  "demo_classes c ps st h =
     (case c of
        Mixpanel \<Rightarrow> (Inr (plain_driver\<lparr>params := length h, settings := st\<rparr>), h @ [stored_params])
      | Postgres \<Rightarrow> (Inr (sql_driver\<lparr>params := length h, settings := st\<rparr>), h @ [stored_params])
      | Athena \<Rightarrow> (Inr (failing_driver\<lparr>params := length h, settings := st\<rparr>), h @ [stored_params])
      | _ \<Rightarrow> (Inl (Error ''Malformed UTF-8 data''), h))"

text \<open>What the factory makes of a driver of \<open>demo_classes\<close> for the data source \<open>source_of c\<close>.\<close>

definition built :: "nat integration \<Rightarrow> nat integration" where
  "built d = d\<lparr>params := 0, settings := Some [(''notebookRunQuery'', JStr ''run'')],
               organization := ''org_1'', datasource := ''ds_1''\<rparr>"

definition source_of :: "DataSourceType \<Rightarrow> DataSourceInterface" where
  "source_of c =
     \<lparr>ds_id = ''ds_1'', ds_organization = ''org_1'', ds_type = c, ds_params = ''U2FsdGVk'',
      ds_settings = Some [(''notebookRunQuery'', JStr ''run'')]\<rparr>"

definition world_with :: "DataSourceInterface \<Rightarrow> nat world" where
  "world_with ds =
     \<lparr>heap = [], net = 0,
      db = \<lparr>InformationSchemaColumnsModel = [], InformationSchemaModel = [],
            DataSourceModel = [ds]\<rparr>,
      ticks = 0, uniq_at = (\<lambda>n. replicate (Suc n) CHR ''x''), time_at = int\<rparr>"


section \<open>Objects and the heap\<close>

lemma obj_get_obj_set:
  "obj_get (obj_set ob k v) k' = (if k' = k then v else obj_get ob k')"
  by (induction ob) (auto simp: obj_get_def)

lemma Object_keys_obj_set:
  "Object_keys (obj_set ob k v) =
     (if k \<in> set (Object_keys ob) then Object_keys ob else Object_keys ob @ [k])"
  by (induction ob) (auto simp: Object_keys_def)

lemma obj_get_absent: "k \<notin> set (Object_keys ob) \<Longrightarrow> obj_get ob k = JUndefined"
  by (simp add: obj_get_def Object_keys_def map_of_eq_None_iff[THEN iffD2])

lemma truthy_obj_get_present: "truthy (obj_get ob k) \<Longrightarrow> k \<in> set (Object_keys ob)"
  using obj_get_absent by fastforce

lemma length_heap_write: "length (heap_write h a k v) = length h"
  by (simp add: heap_write_def)

lemma heap_read_heap_write:
  "heap_read (heap_write h a k v) b =
     (if b = a \<and> a < length h then obj_set (heap_read h a) k v else heap_read h b)"
  by (auto simp: heap_write_def heap_read_def)

section \<open>Redaction\<close>

text \<open>
  The loop of \<open>getNonSensitiveParams\<close>, from any heap in which \<open>ret\<close> is allocated: only the
  object at \<open>ret\<close> is written, it keeps its keys, and a key of the list that held a truthy
  value holds the empty string.
\<close>

lemma blank_fold:
  assumes "ret < length h"
  shows "length (fold (blank_step ret) ks h) = length h
       \<and> (\<forall>a. a \<noteq> ret \<longrightarrow> heap_read (fold (blank_step ret) ks h) a = heap_read h a)
       \<and> (\<forall>k. obj_get (heap_read (fold (blank_step ret) ks h) ret) k =
                (if k \<in> set ks \<and> truthy (obj_get (heap_read h ret) k) then JStr []
                 else obj_get (heap_read h ret) k))
       \<and> Object_keys (heap_read (fold (blank_step ret) ks h) ret) = Object_keys (heap_read h ret)"
  using assms
proof (induction ks arbitrary: h)
  case Nil
  then show ?case by simp
next
  case (Cons k ks)
  let ?h1 = "blank_step ret k h"
  have len: "length ?h1 = length h"
    by (simp add: blank_step_def length_heap_write)
  have other: "\<And>a. a \<noteq> ret \<Longrightarrow> heap_read ?h1 a = heap_read h a"
    by (simp add: blank_step_def heap_read_heap_write)
  have val: "\<And>k'. obj_get (heap_read ?h1 ret) k' =
       (if k' = k \<and> truthy (obj_get (heap_read h ret) k) then JStr []
        else obj_get (heap_read h ret) k')"
    using Cons.prems by (simp add: blank_step_def heap_read_heap_write obj_get_obj_set)
  have keys: "Object_keys (heap_read ?h1 ret) = Object_keys (heap_read h ret)"
    using Cons.prems
    by (simp add: blank_step_def heap_read_heap_write Object_keys_obj_set truthy_obj_get_present)
  from Cons.prems len have "ret < length ?h1" by simp
  from Cons.IH[OF this] show ?case
    by (auto simp: len other val keys)
qed

text \<open>
  C2. For every driver \<open>D\<close> whose \<open>params\<close> is an object of the heap,
  \<open>getNonSensitiveParams(D)\<close> returns a new object (\<open>ret\<close> is the first free reference) with
  the keys of \<open>D.params\<close>, in which every key listed by \<open>getSensitiveParamKeys()\<close> has an
  empty value, that is a falsy one: the empty string where the stored value was truthy,
  the stored value itself where that was already falsy or missing. The value of every
  key not listed is the stored one, and no object that existed before the call, \<open>D.params\<close>
  among them, is changed.
\<close>

theorem getNonSensitiveParams_redacts:
  assumes valid: "params D < length h"
      and run: "getNonSensitiveParams D h = (ret, h')"
  shows "(\<forall>k \<in> set (getSensitiveParamKeys D). \<not> truthy (obj_get (heap_read h' ret) k))
       \<and> (\<forall>k \<in> set (getSensitiveParamKeys D).
            truthy (obj_get (heap_read h (params D)) k) \<longrightarrow>
            obj_get (heap_read h' ret) k = JStr [])
       \<and> (\<forall>k. k \<notin> set (getSensitiveParamKeys D) \<longrightarrow>
            obj_get (heap_read h' ret) k = obj_get (heap_read h (params D)) k)
       \<and> Object_keys (heap_read h' ret) = Object_keys (heap_read h (params D))
       \<and> ret = length h \<and> length h' = Suc (length h)
       \<and> (\<forall>a < length h. heap_read h' a = heap_read h a)"
proof -
  let ?h1 = "h @ [heap_read h (params D)]"
  from run have ret: "ret = length h"
    and h': "h' = fold (blank_step (length h)) (getSensitiveParamKeys D) ?h1"
    by (auto simp: getNonSensitiveParams_def heap_alloc_def)
  have fresh: "length h < length ?h1" by simp
  have copy: "heap_read ?h1 (length h) = heap_read h (params D)"
    by (simp add: heap_read_def)
  have old: "\<And>a. a < length h \<Longrightarrow> heap_read ?h1 a = heap_read h a"
    by (simp add: heap_read_def nth_append)
  note F = blank_fold[OF fresh, of "getSensitiveParamKeys D", folded h', unfolded copy]
  from F have len: "length h' = Suc (length h)" by simp
  from F have frame: "\<forall>a < length h. heap_read h' a = heap_read h a"
    using old by auto
  from F have vals: "\<And>k. obj_get (heap_read h' (length h)) k =
      (if k \<in> set (getSensitiveParamKeys D) \<and> truthy (obj_get (heap_read h (params D)) k)
       then JStr [] else obj_get (heap_read h (params D)) k)"
    by blast
  from F have keys: "Object_keys (heap_read h' (length h)) = Object_keys (heap_read h (params D))"
    by blast
  show ?thesis
    unfolding ret using len frame keys by (simp add: vals)
qed

theorem getNonSensitiveParams_redacts_witness:
  "params plain_driver < length [stored_params]
   \<and> getNonSensitiveParams plain_driver [stored_params]
       = (1, [stored_params, [(''user'', JStr ''a''), (''pass'', JStr [])]])
   \<and> ''pass'' \<in> set (getSensitiveParamKeys plain_driver)
   \<and> truthy (obj_get (heap_read [stored_params] (params plain_driver)) ''pass'')
   \<and> obj_get (heap_read [stored_params, [(''user'', JStr ''a''), (''pass'', JStr [])]] 1) ''pass''
       = JStr []
   \<and> ''user'' \<notin> set (getSensitiveParamKeys plain_driver)
   \<and> obj_get (heap_read [stored_params, [(''user'', JStr ''a''), (''pass'', JStr [])]] 1) ''user''
       = JStr ''a''
   \<and> heap_read [stored_params, [(''user'', JStr ''a''), (''pass'', JStr [])]] 0 = stored_params"
proof -
  have valid: "params plain_driver < length [stored_params]"
    by (simp add: plain_driver_def)
  have run: "getNonSensitiveParams plain_driver [stored_params]
       = (1, [stored_params, [(''user'', JStr ''a''), (''pass'', JStr [])]])"
    by (simp add: getNonSensitiveParams_def plain_driver_def stored_params_def heap_alloc_def
        heap_read_def heap_write_def blank_step_def obj_get_def)
  from getNonSensitiveParams_redacts[OF valid run] show ?thesis
    using valid run
    by (simp add: plain_driver_def stored_params_def heap_read_def obj_get_def)
qed

section \<open>Merge\<close>

lemma mergeParams_step_length: "length (mergeParams_step D N k h) = length h"
  by (simp add: mergeParams_step_def length_heap_write)

lemma mergeParams_step_other:
  "a \<noteq> params D \<Longrightarrow> heap_read (mergeParams_step D N k h) a = heap_read h a"
  by (simp add: mergeParams_step_def heap_read_heap_write)

lemma mergeParams_step_target:
  assumes "params D < length h"
  shows "obj_get (heap_read (mergeParams_step D N k h) (params D)) k' =
     (if k' = k \<and> \<not> (k \<in> set (getSensitiveParamKeys D) \<and> \<not> truthy (obj_get (heap_read h N) k))
      then obj_get (heap_read h N) k
      else obj_get (heap_read h (params D)) k')"
  using assms by (auto simp: mergeParams_step_def heap_read_heap_write obj_get_obj_set)

text \<open>A round never changes what \<open>newParams[k']\<close> reads, also when both references are one.\<close>

lemma mergeParams_step_source:
  assumes "params D < length h"
  shows "obj_get (heap_read (mergeParams_step D N k h) N) k' = obj_get (heap_read h N) k'"
proof (cases "N = params D")
  case True
  then show ?thesis using mergeParams_step_target[OF assms, of N k k'] by simp
next
  case False
  then show ?thesis by (simp add: mergeParams_step_other)
qed

lemma mergeParams_fold:
  assumes "params D < length h"
  shows "length (fold (mergeParams_step D N) ks h) = length h
       \<and> (\<forall>a. a \<noteq> params D \<longrightarrow> heap_read (fold (mergeParams_step D N) ks h) a = heap_read h a)
       \<and> (\<forall>k. obj_get (heap_read (fold (mergeParams_step D N) ks h) N) k = obj_get (heap_read h N) k)
       \<and> (\<forall>k. obj_get (heap_read (fold (mergeParams_step D N) ks h) (params D)) k =
            (if k \<in> set ks
                \<and> \<not> (k \<in> set (getSensitiveParamKeys D) \<and> \<not> truthy (obj_get (heap_read h N) k))
             then obj_get (heap_read h N) k
             else obj_get (heap_read h (params D)) k))"
  using assms
proof (induction ks arbitrary: h)
  case Nil
  then show ?case by simp
next
  case (Cons k ks)
  let ?h1 = "mergeParams_step D N k h"
  have valid1: "params D < length ?h1"
    using Cons.prems by (simp add: mergeParams_step_length)
  note src = mergeParams_step_source[OF Cons.prems, of N k]
  note tgt = mergeParams_step_target[OF Cons.prems, of N k]
  from Cons.IH[OF valid1] show ?case
    by (auto simp: mergeParams_step_length mergeParams_step_other src tgt)
qed

text \<open>
  C3. For every driver \<open>D\<close> whose \<open>params\<close> is an object of the heap and every update \<open>U\<close>,
  after \<open>mergeParams(D, U)\<close>: a sensitive key whose value in \<open>U\<close> is empty or absent
  (falsy) reads as it did before; a key of \<open>U\<close> that is not sensitive, or whose value in
  \<open>U\<close> is not empty, reads as in \<open>U\<close>; a key that \<open>U\<close> does not have reads as it did before;
  no other object is changed. With stored params \<open>{user:"a", pass:"secret"}\<close> and \<open>pass\<close>
  sensitive, the update \<open>{pass:""}\<close> leaves \<open>{user:"a", pass:"secret"}\<close> and the update
  \<open>{pass:"new"}\<close> gives \<open>{user:"a", pass:"new"}\<close>.
\<close>

theorem mergeParams_merges:
  assumes valid: "params D < length h"
  shows "(\<forall>k. k \<in> set (getSensitiveParamKeys D)
              \<and> \<not> truthy (obj_get (heap_read h U) k) \<longrightarrow>
            obj_get (heap_read (mergeParams D U h) (params D)) k
              = obj_get (heap_read h (params D)) k)
       \<and> (\<forall>k. k \<in> set (Object_keys (heap_read h U))
              \<and> (k \<notin> set (getSensitiveParamKeys D) \<or> truthy (obj_get (heap_read h U) k)) \<longrightarrow>
            obj_get (heap_read (mergeParams D U h) (params D)) k = obj_get (heap_read h U) k)
       \<and> (\<forall>k. k \<notin> set (Object_keys (heap_read h U)) \<longrightarrow>
            obj_get (heap_read (mergeParams D U h) (params D)) k
              = obj_get (heap_read h (params D)) k)
       \<and> length (mergeParams D U h) = length h
       \<and> (\<forall>a. a \<noteq> params D \<longrightarrow> heap_read (mergeParams D U h) a = heap_read h a)
       \<and> (\<forall>E :: 'w integration. params E = 0 \<and> getSensitiveParamKeys E = [''pass''] \<longrightarrow>
            heap_read (mergeParams E 1 [stored_params, [(''pass'', JStr [])]]) 0
              = [(''user'', JStr ''a''), (''pass'', JStr ''secret'')]
          \<and> heap_read (mergeParams E 1 [stored_params, [(''pass'', JStr ''new'')]]) 0
              = [(''user'', JStr ''a''), (''pass'', JStr ''new'')])"
proof -
  have general: "(\<forall>k. k \<in> set (getSensitiveParamKeys D)
              \<and> \<not> truthy (obj_get (heap_read h U) k) \<longrightarrow>
            obj_get (heap_read (mergeParams D U h) (params D)) k
              = obj_get (heap_read h (params D)) k)
       \<and> (\<forall>k. k \<in> set (Object_keys (heap_read h U))
              \<and> (k \<notin> set (getSensitiveParamKeys D) \<or> truthy (obj_get (heap_read h U) k)) \<longrightarrow>
            obj_get (heap_read (mergeParams D U h) (params D)) k = obj_get (heap_read h U) k)
       \<and> (\<forall>k. k \<notin> set (Object_keys (heap_read h U)) \<longrightarrow>
            obj_get (heap_read (mergeParams D U h) (params D)) k
              = obj_get (heap_read h (params D)) k)
       \<and> length (mergeParams D U h) = length h
       \<and> (\<forall>a. a \<noteq> params D \<longrightarrow> heap_read (mergeParams D U h) a = heap_read h a)"
    using mergeParams_fold[OF valid, of U "Object_keys (heap_read h U)"]
    unfolding mergeParams_def by simp
  have examples: "\<forall>E :: 'w integration. params E = 0 \<and> getSensitiveParamKeys E = [''pass''] \<longrightarrow>
            heap_read (mergeParams E 1 [stored_params, [(''pass'', JStr [])]]) 0
              = [(''user'', JStr ''a''), (''pass'', JStr ''secret'')]
          \<and> heap_read (mergeParams E 1 [stored_params, [(''pass'', JStr ''new'')]]) 0
              = [(''user'', JStr ''a''), (''pass'', JStr ''new'')]"
    by (simp add: mergeParams_def mergeParams_step_def stored_params_def Object_keys_def
        heap_read_def heap_write_def obj_get_def)
  from general examples show ?thesis by blast
qed

theorem mergeParams_merges_witness:
  "params plain_driver < length [stored_params, [(''pass'', JStr [])]]
   \<and> ''pass'' \<in> set (getSensitiveParamKeys plain_driver)
   \<and> \<not> truthy (obj_get (heap_read [stored_params, [(''pass'', JStr [])]] 1) ''pass'')
   \<and> obj_get (heap_read (mergeParams plain_driver 1 [stored_params, [(''pass'', JStr [])]])
               (params plain_driver)) ''pass'' = JStr ''secret''
   \<and> ''pass'' \<in> set (Object_keys (heap_read [stored_params, [(''pass'', JStr ''new'')]] 1))
   \<and> truthy (obj_get (heap_read [stored_params, [(''pass'', JStr ''new'')]] 1) ''pass'')
   \<and> obj_get (heap_read (mergeParams plain_driver 1 [stored_params, [(''pass'', JStr ''new'')]])
               (params plain_driver)) ''pass'' = JStr ''new''
   \<and> ''user'' \<notin> set (Object_keys (heap_read [stored_params, [(''pass'', JStr ''new'')]] 1))
   \<and> obj_get (heap_read (mergeParams plain_driver 1 [stored_params, [(''pass'', JStr ''new'')]])
               (params plain_driver)) ''user'' = JStr ''a''
   \<and> heap_read (mergeParams plain_driver 1 [stored_params, [(''pass'', JStr [])]]) 0
       = [(''user'', JStr ''a''), (''pass'', JStr ''secret'')]"
proof -
  have v1: "params plain_driver < length [stored_params, [(''pass'', JStr [])]]"
    and v2: "params plain_driver < length [stored_params, [(''pass'', JStr ''new'')]]"
    by (simp_all add: plain_driver_def)
  have p: "params plain_driver = 0 \<and> getSensitiveParamKeys plain_driver = [''pass'']"
    by (simp add: plain_driver_def)
  from mergeParams_merges[OF v1, of 1] mergeParams_merges[OF v2, of 1] p v1
  show ?thesis
    by (simp add: plain_driver_def stored_params_def mergeParams_def mergeParams_step_def
        Object_keys_def heap_read_def heap_write_def obj_get_def)
qed

section \<open>The credential codec\<close>



section \<open>The concrete factory\<close>

lemmas factory_defs =
  getSourceIntegrationObject_def getIntegrationObj_def construct_def demo_classes_def
  source_of_def world_with_def built_def

lemma built_plain:
  "getSourceIntegrationObject demo_classes (source_of Mixpanel) (heap (world_with (source_of Mixpanel)))
     = (Inr (built plain_driver), [stored_params])"
  by (simp add: factory_defs plain_driver_def)

lemma built_sql:
  "getSourceIntegrationObject demo_classes (source_of Postgres) (heap (world_with (source_of Postgres)))
     = (Inr (built sql_driver), [stored_params])"
  by (simp add: factory_defs sql_driver_def)

lemma built_failing:
  "getSourceIntegrationObject demo_classes (source_of Athena) (heap (world_with (source_of Athena)))
     = (Inr (built failing_driver), [stored_params])"
  by (simp add: factory_defs failing_driver_def)

section \<open>Schema discovery\<close>

text \<open>
  C4. For every data source whose driver is built and lacks \<open>getInformationSchema\<close> or
  \<open>formatInformationSchema\<close>, \<open>generateInformationSchema\<close> returns (it does not throw)
  \<open>{informationSchema: []}\<close> with no error field; the backend and the document store are
  as they were, only the driver's construction shows in the heap.
\<close>

theorem generateInformationSchema_unsupported:
  assumes factory: "getSourceIntegrationObject new ds (heap w) = (Inr integration, h1)"
      and lacks: "getInformationSchema integration = None
                  \<or> formatInformationSchema integration = None"
  shows "generateInformationSchema new ds w
           = (Inr \<lparr>informationSchema = Some [], gen_error = None\<rparr>, w\<lparr>heap := h1\<rparr>)"
  using lacks
  by (auto simp: generateInformationSchema_def factory split: option.splits)

theorem generateInformationSchema_unsupported_witness:
  "getSourceIntegrationObject demo_classes (source_of Mixpanel)
       (heap (world_with (source_of Mixpanel)))
     = (Inr (built plain_driver), [stored_params])
   \<and> (getInformationSchema (built plain_driver) = None
        \<or> formatInformationSchema (built plain_driver) = None)
   \<and> generateInformationSchema demo_classes (source_of Mixpanel) (world_with (source_of Mixpanel))
       = (Inr \<lparr>informationSchema = Some [], gen_error = None\<rparr>,
          (world_with (source_of Mixpanel))\<lparr>heap := [stored_params]\<rparr>)"
proof -
  have lacks: "getInformationSchema (built plain_driver) = None
        \<or> formatInformationSchema (built plain_driver) = None"
    by (simp add: built_def plain_driver_def)
  from generateInformationSchema_unsupported[OF built_plain lacks] built_plain lacks
  show ?thesis by blast
qed

text \<open>
  C5. For every data source whose driver is built, has both schema capabilities, and
  whose \<open>getInformationSchema\<close> call throws \<open>e\<close>, or returns and \<open>formatInformationSchema\<close> on
  its result throws \<open>e\<close>: \<open>generateInformationSchema\<close> returns \<open>{error: e.message}\<close> with no
  \<open>informationSchema\<close>, and \<open>createInitialInformationSchema\<close> returns with the document store
  as it was: no columns document, no InformationSchema document, no data-source update.
\<close>

theorem generateInformationSchema_failure:
  assumes factory: "getSourceIntegrationObject new ds (heap w) = (Inr integration, h1)"
      and gis: "getInformationSchema integration = Some gis"
      and fis: "formatInformationSchema integration = Some fis"
      and throws:
        "gis (obj_get (heap_read h1 (params integration)) ''projectId'') (net w) = (Inl e, n1)
         \<or> (\<exists>rawSchema n0.
               gis (obj_get (heap_read h1 (params integration)) ''projectId'') (net w)
                 = (Inr rawSchema, n0)
             \<and> fis rawSchema (ds_type ds) n0 = (Inl e, n1))"
  shows "generateInformationSchema new ds w
           = (Inr \<lparr>informationSchema = None, gen_error = Some (message e)\<rparr>,
              w\<lparr>heap := h1, net := n1\<rparr>)
       \<and> createInitialInformationSchema new ds org w = (Inr (), w\<lparr>heap := h1, net := n1\<rparr>)
       \<and> db (snd (createInitialInformationSchema new ds org w)) = db w"
proof -
  from throws have gen: "generateInformationSchema new ds w
           = (Inr \<lparr>informationSchema = None, gen_error = Some (message e)\<rparr>,
              w\<lparr>heap := h1, net := n1\<rparr>)"
    by (auto simp: generateInformationSchema_def factory gis fis)
  then show ?thesis
    by (simp add: createInitialInformationSchema_def)
qed

theorem generateInformationSchema_failure_witness:
  "getSourceIntegrationObject demo_classes (source_of Athena)
       (heap (world_with (source_of Athena)))
     = (Inr (built failing_driver), [stored_params])
   \<and> getInformationSchema (built failing_driver)
       = Some (\<lambda>scope n. (Inl (Error ''connection refused''), Suc n))
   \<and> formatInformationSchema (built failing_driver) = Some (\<lambda>rawSchema t n. (Inr [], n))
   \<and> generateInformationSchema demo_classes (source_of Athena) (world_with (source_of Athena))
       = (Inr \<lparr>informationSchema = None, gen_error = Some ''connection refused''\<rparr>,
          (world_with (source_of Athena))\<lparr>heap := [stored_params], net := 1\<rparr>)
   \<and> db (snd (createInitialInformationSchema demo_classes (source_of Athena) ''org_1''
                (world_with (source_of Athena))))
       = db (world_with (source_of Athena))"
proof -
  have gis: "getInformationSchema (built failing_driver)
       = Some (\<lambda>scope n. (Inl (Error ''connection refused''), Suc n))"
    and fis: "formatInformationSchema (built failing_driver) = Some (\<lambda>rawSchema t n. (Inr [], n))"
    by (simp_all add: built_def failing_driver_def)
  have throws: "(\<lambda>scope n. (Inl (Error ''connection refused''), Suc n))
          (obj_get (heap_read [stored_params] (params (built failing_driver))) ''projectId'')
          (net (world_with (source_of Athena))) = (Inl (Error ''connection refused''), 1)
      \<or> (\<exists>rawSchema n0. (\<lambda>scope n. (Inl (Error ''connection refused''), Suc n))
          (obj_get (heap_read [stored_params] (params (built failing_driver))) ''projectId'')
          (net (world_with (source_of Athena))) = (Inr rawSchema, n0)
          \<and> (\<lambda>rawSchema t n. (Inr [], n)) rawSchema (ds_type (source_of Athena)) n0
               = (Inl (Error ''connection refused''), 1))"
    by (simp add: world_with_def)
  from generateInformationSchema_failure[OF built_failing gis fis throws, of "''org_1''"]
    built_failing gis fis
  show ?thesis by simp
qed

section \<open>Test queries\<close>

text \<open>
  C8. For every data source whose driver is built and lacks \<open>getTestQuery\<close> or
  \<open>runTestQuery\<close>, \<open>testQuery\<close> throws the error "Unable to test query." (the service's
  capability-unsupported failure) and leaves the backend and the document store as they
  were: no query was built or run.
\<close>

theorem testQuery_unsupported:
  assumes factory: "getSourceIntegrationObject new ds (heap w) = (Inr integration, h1)"
      and lacks: "getTestQuery integration = None \<or> runTestQuery integration = None"
  shows "testQuery new ds query w = (Inl (Error ''Unable to test query.''), w\<lparr>heap := h1\<rparr>)
       \<and> net (snd (testQuery new ds query w)) = net w
       \<and> db (snd (testQuery new ds query w)) = db w"
  using lacks
  by (auto simp: testQuery_def factory split: option.splits)

theorem testQuery_unsupported_witness:
  "getSourceIntegrationObject demo_classes (source_of Athena)
       (heap (world_with (source_of Athena)))
     = (Inr (built failing_driver), [stored_params])
   \<and> (getTestQuery (built failing_driver) = None \<or> runTestQuery (built failing_driver) = None)
   \<and> fst (testQuery demo_classes (source_of Athena) ''SELECT 1'' (world_with (source_of Athena)))
       = Inl (Error ''Unable to test query.'')
   \<and> net (snd (testQuery demo_classes (source_of Athena) ''SELECT 1''
                 (world_with (source_of Athena)))) = 0"
proof -
  have lacks: "getTestQuery (built failing_driver) = None \<or> runTestQuery (built failing_driver) = None"
    by (simp add: built_def failing_driver_def)
  from testQuery_unsupported[OF built_failing lacks, of "''SELECT 1''"] built_failing lacks
  show ?thesis by (simp add: world_with_def)
qed

text \<open>
  C9. For every data source whose driver is built and has both test-query capabilities,
  when \<open>getTestQuery\<close> builds the bounded query and \<open>runTestQuery\<close> on it throws \<open>e\<close>,
  \<open>testQuery\<close> returns (it does not throw) a result with \<open>error = e.message\<close> and
  \<open>sql =\<close> the bounded query, no rows and no duration; the backend is in the state that the
  one failed run left.
\<close>

theorem testQuery_failure:
  assumes factory: "getSourceIntegrationObject new ds (heap w) = (Inr integration, h1)"
      and gtq: "getTestQuery integration = Some gtq"
      and rtq: "runTestQuery integration = Some rtq"
      and built: "gtq query (net w) = (Inr bounded, n1)"
      and throws: "rtq bounded n1 = (Inl e, n2)"
  shows "testQuery new ds query w
           = (Inr \<lparr>results = None, duration = None,
                   tq_error = Some (message e), sql = Some bounded\<rparr>,
              w\<lparr>heap := h1, net := n2\<rparr>)"
  by (simp add: testQuery_def factory gtq rtq built throws)

theorem testQuery_failure_witness:
  "getSourceIntegrationObject demo_classes (source_of Postgres)
       (heap (world_with (source_of Postgres)))
     = (Inr (built sql_driver), [stored_params])
   \<and> getTestQuery (built sql_driver) = Some (\<lambda>q n. (Inr (q @ '' LIMIT 5''), n))
   \<and> runTestQuery (built sql_driver)
       = Some (\<lambda>q n. (Inl (Error ''relation does not exist''), Suc n))
   \<and> testQuery demo_classes (source_of Postgres) ''SELECT 1'' (world_with (source_of Postgres))
       = (Inr \<lparr>results = None, duration = None,
               tq_error = Some ''relation does not exist'', sql = Some ''SELECT 1 LIMIT 5''\<rparr>,
          (world_with (source_of Postgres))\<lparr>heap := [stored_params], net := 1\<rparr>)"
proof -
  have gtq: "getTestQuery (built sql_driver) = Some (\<lambda>q n. (Inr (q @ '' LIMIT 5''), n))"
    and rtq: "runTestQuery (built sql_driver)
       = Some (\<lambda>q n. (Inl (Error ''relation does not exist''), Suc n))"
    by (simp_all add: built_def sql_driver_def)
  have built: "(\<lambda>q n. (Inr (q @ '' LIMIT 5''), n)) ''SELECT 1'' (net (world_with (source_of Postgres)))
       = (Inr ''SELECT 1 LIMIT 5'', 0)"
    by (simp add: world_with_def)
  have throws: "(\<lambda>q n. (Inl (Error ''relation does not exist''), Suc n)) ''SELECT 1 LIMIT 5'' 0
       = (Inl (Error ''relation does not exist''), 1)"
    by simp
  from testQuery_failure[OF built_sql gtq rtq built throws] built_sql gtq rtq
  show ?thesis by simp
qed

section \<open>Column documents\<close>





section \<open>The synchronization\<close>

lemma createInformationSchema_eq:
  "createInformationSchema tree org w =
     (uniq_at w (ticks w),
      w\<lparr>db := (db w)\<lparr>InformationSchemaModel :=
            InformationSchemaModel (db w)
              @ [\<lparr>is_id = uniq_at w (ticks w), is_organization = org, is_databases = tree\<rparr>]\<rparr>,
        ticks := Suc (ticks w)\<rparr>)"
  by (simp add: createInformationSchema_def uniqid_def)


text \<open>
  The claim C6 as it stands, that a driver without \<open>getInformationSchema\<close> leaves the
  document store unwritten, fails: for the Mixpanel-like driver the run ends with one
  InformationSchema document (an empty tree) and with \<open>settings.informationSchemaId\<close> of
  the stored record set. \<open>{informationSchema: []}\<close> is truthy, so the body of
  \<open>if (informationSchema)\<close> runs.
\<close>

theorem createInitialInformationSchema_skipped_counterexample:
  "getSourceIntegrationObject demo_classes (source_of Mixpanel)
       (heap (world_with (source_of Mixpanel)))
     = (Inr (built plain_driver), [stored_params])
   \<and> getInformationSchema (built plain_driver) = None
   \<and> InformationSchemaModel (db (world_with (source_of Mixpanel))) = []
   \<and> InformationSchemaModel
       (db (snd (createInitialInformationSchema demo_classes (source_of Mixpanel) ''org_1''
                   (world_with (source_of Mixpanel)))))
       = [\<lparr>is_id = ''x'', is_organization = ''org_1'', is_databases = []\<rparr>]
   \<and> DataSourceModel (db (world_with (source_of Mixpanel)))
       = [\<lparr>ds_id = ''ds_1'', ds_organization = ''org_1'', ds_type = Mixpanel,
           ds_params = ''U2FsdGVk'',
           ds_settings = Some [(''notebookRunQuery'', JStr ''run'')]\<rparr>]
   \<and> DataSourceModel
       (db (snd (createInitialInformationSchema demo_classes (source_of Mixpanel) ''org_1''
                   (world_with (source_of Mixpanel)))))
       = [\<lparr>ds_id = ''ds_1'', ds_organization = ''org_1'', ds_type = Mixpanel,
           ds_params = ''U2FsdGVk'',
           ds_settings = Some [(''notebookRunQuery'', JStr ''run''),
                               (''informationSchemaId'', JStr ''x'')]\<rparr>]"
proof -
  have lacks: "getInformationSchema (built plain_driver) = None"
    by (simp add: built_def plain_driver_def)
  have gen: "generateInformationSchema demo_classes (source_of Mixpanel)
               (world_with (source_of Mixpanel))
           = (Inr \<lparr>informationSchema = Some [], gen_error = None\<rparr>,
              (world_with (source_of Mixpanel))\<lparr>heap := [stored_params]\<rparr>)"
    by (simp add: generateInformationSchema_def built_plain lacks)
  have run: "db (snd (createInitialInformationSchema demo_classes (source_of Mixpanel) ''org_1''
                   (world_with (source_of Mixpanel))))
      = \<lparr>InformationSchemaColumnsModel = [],
         InformationSchemaModel = [\<lparr>is_id = ''x'', is_organization = ''org_1'', is_databases = []\<rparr>],
         DataSourceModel = [\<lparr>ds_id = ''ds_1'', ds_organization = ''org_1'', ds_type = Mixpanel,
           ds_params = ''U2FsdGVk'',
           ds_settings = Some [(''notebookRunQuery'', JStr ''run''),
                               (''informationSchemaId'', JStr ''x'')]\<rparr>]\<rparr>"
    by (simp add: createInitialInformationSchema_def gen createInformationSchema_eq
        updateDataSource_def)
       (simp_all add: world_with_def source_of_def)
  have before: "InformationSchemaModel (db (world_with (source_of Mixpanel))) = []
     \<and> DataSourceModel (db (world_with (source_of Mixpanel)))
       = [\<lparr>ds_id = ''ds_1'', ds_organization = ''org_1'', ds_type = Mixpanel,
           ds_params = ''U2FsdGVk'',
           ds_settings = Some [(''notebookRunQuery'', JStr ''run'')]\<rparr>]"
    by (simp add: world_with_def source_of_def)
  show ?thesis
    using built_plain lacks before by (simp add: run)
qed

text \<open>
  C6, amended. For every data source whose driver is built and lacks
  \<open>getInformationSchema\<close>, \<open>createInitialInformationSchema\<close> returns without calling the
  backend and without creating a columns document; it creates one InformationSchema
  document, holding an empty tree, and, when the id returned for it is not empty, sets
  \<open>settings.informationSchemaId\<close> of the stored record of that id and organization to it.
\<close>

theorem createInitialInformationSchema_unsupported:
  assumes factory: "getSourceIntegrationObject new ds (heap w) = (Inr integration, h1)"
      and lacks: "getInformationSchema integration = None"
  shows "\<exists>w'. createInitialInformationSchema new ds org w = (Inr (), w')
         \<and> net w' = net w
         \<and> InformationSchemaColumnsModel (db w') = InformationSchemaColumnsModel (db w)
         \<and> InformationSchemaModel (db w')
             = InformationSchemaModel (db w)
               @ [\<lparr>is_id = uniq_at w (ticks w), is_organization = org, is_databases = []\<rparr>]
         \<and> DataSourceModel (db w')
             = (if uniq_at w (ticks w) = [] then DataSourceModel (db w)
                else update_one (ds_id ds) org
                       (obj_set (case ds_settings ds of None \<Rightarrow> [] | Some s \<Rightarrow> s)
                          ''informationSchemaId'' (JStr (uniq_at w (ticks w))))
                       (DataSourceModel (db w)))"
proof -
  have gen: "generateInformationSchema new ds w
           = (Inr \<lparr>informationSchema = Some [], gen_error = None\<rparr>, w\<lparr>heap := h1\<rparr>)"
    by (simp add: generateInformationSchema_def factory lacks)
  show ?thesis
    by (simp add: createInitialInformationSchema_def gen createInformationSchema_eq
        updateDataSource_def)
qed

theorem createInitialInformationSchema_unsupported_witness:
  "getSourceIntegrationObject demo_classes (source_of Mixpanel)
       (heap (world_with (source_of Mixpanel)))
     = (Inr (built plain_driver), [stored_params])
   \<and> getInformationSchema (built plain_driver) = None
   \<and> (\<exists>w'. createInitialInformationSchema demo_classes (source_of Mixpanel) ''org_1''
              (world_with (source_of Mixpanel)) = (Inr (), w')
          \<and> net w' = 0
          \<and> InformationSchemaColumnsModel (db w') = []
          \<and> InformationSchemaModel (db w')
              = [\<lparr>is_id = ''x'', is_organization = ''org_1'', is_databases = []\<rparr>])"
proof -
  have lacks: "getInformationSchema (built plain_driver) = None"
    by (simp add: built_def plain_driver_def)
  from createInitialInformationSchema_unsupported[OF built_plain lacks, of "''org_1''"]
  obtain w' where
    "createInitialInformationSchema demo_classes (source_of Mixpanel) ''org_1''
       (world_with (source_of Mixpanel)) = (Inr (), w')"
    "net w' = net (world_with (source_of Mixpanel))"
    "InformationSchemaColumnsModel (db w')
       = InformationSchemaColumnsModel (db (world_with (source_of Mixpanel)))"
    "InformationSchemaModel (db w')
       = InformationSchemaModel (db (world_with (source_of Mixpanel)))
         @ [\<lparr>is_id = uniq_at (world_with (source_of Mixpanel))
                           (ticks (world_with (source_of Mixpanel))),
              is_organization = ''org_1'', is_databases = []\<rparr>]"
    by blast
  then have "\<exists>w'. createInitialInformationSchema demo_classes (source_of Mixpanel) ''org_1''
              (world_with (source_of Mixpanel)) = (Inr (), w')
          \<and> net w' = 0
          \<and> InformationSchemaColumnsModel (db w') = []
          \<and> InformationSchemaModel (db w')
              = [\<lparr>is_id = ''x'', is_organization = ''org_1'', is_databases = []\<rparr>]"
    by (intro exI[of _ w']) (simp add: world_with_def)
  with built_plain lacks show ?thesis by blast
qed




end
